theory Spec2Isabelle
  imports Main
begin

section \<open>JSON values and the JavaScript coercions the handlers rely on\<close>

text \<open>
  Request bodies, response bodies and the parsed reply of the generative model are JSON
  values. An object is an association list in property order; \<open>map_of\<close> reads a
  property. Numbers are integers here: every number the handlers write themselves
  (85, 75, 3, 2, \<open>Date.now()\<close>) is one. The JavaScript value \<open>undefined\<close> is
  \<open>None\<close> of \<open>json option\<close>.
\<close>

datatype json =
    JNull
  | JBool bool
  | JNum int
  | JStr string
  | JArr "json list"
  | JObj "(string \<times> json) list"

text \<open>\<open>obj.k\<close> on a value that was sent as JSON: only an object has the property.\<close>

fun jfield :: "string \<Rightarrow> json \<Rightarrow> json option" where
  "jfield k (JObj kvs) = map_of kvs k"
| "jfield k _ = None"

text \<open>\<open>!x\<close> is \<open>\<not> truthy x\<close>: undefined, null, false, 0 and the empty string are falsy.\<close>

fun truthy :: "json option \<Rightarrow> bool" where
  "truthy None = False"
| "truthy (Some JNull) = False"
| "truthy (Some (JBool b)) = b"
| "truthy (Some (JNum n)) = (n \<noteq> 0)"
| "truthy (Some (JStr s)) = (s \<noteq> [])"
| "truthy (Some (JArr xs)) = True"
| "truthy (Some (JObj kvs)) = True"

text \<open>An environment variable is a string when set; the empty string is falsy.\<close>

fun env_truthy :: "string option \<Rightarrow> bool" where
  "env_truthy None = False"
| "env_truthy (Some s) = (s \<noteq> [])"

text \<open>
  \<open>obj.k = v\<close> on an object: an existing property keeps its place and takes the new
  value, a new property is appended.
\<close>

fun set_prop :: "string \<Rightarrow> json \<Rightarrow> (string \<times> json) list \<Rightarrow> (string \<times> json) list" where
  "set_prop k v [] = [(k, v)]"
| "set_prop k v ((k', v') # kvs) =
     (if k' = k then (k, v) # kvs else (k', v') # set_prop k v kvs)"

text \<open>\<open>s.split(c)\<close> with a one-character separator, \<open>xs[i]\<close> and \<open>s.startsWith(p)\<close>.\<close>

fun js_split :: "char \<Rightarrow> string \<Rightarrow> string list" where
  "js_split c [] = [[]]"
| "js_split c (x # xs) =
     (if x = c then [] # js_split c xs
      else (case js_split c xs of
              [] \<Rightarrow> [[x]]
            | y # ys \<Rightarrow> (x # y) # ys))"

fun js_index :: "'a list \<Rightarrow> nat \<Rightarrow> 'a option" where
  "js_index [] i = None"
| "js_index (x # xs) 0 = Some x"
| "js_index (x # xs) (Suc i) = js_index xs i"

definition startsWith :: "string \<Rightarrow> string \<Rightarrow> bool" where
  "startsWith s p = (take (length p) s = p)"

section \<open>Requests, the environment and responses\<close>

record request =
  req_method :: string
  req_body :: "json option"

text \<open>
  What the call to the generative model yields, seen from the handler: the call (or
  reading its text) throws an error with an optional message; or text comes back and
  \<open>JSON.parse\<close> of the cleaned text throws; or it parses to a JSON value.
\<close>

datatype ai_outcome =
    Rejected "string option"
  | Unparsable
  | Parsed json

text \<open>
  Everything a handler reads besides the request: the environment variable, the clock
  (\<open>new Date().toISOString()\<close> when the prompt is built and when a body is built,
  \<open>Date.now()\<close>), the message text the JavaScript engine puts on a TypeError, and
  the outcome of the model call should the handler make it.
\<close>

record env =
  GEMINI_API_KEY :: "string option"
  prompt_iso :: string
  now_iso :: string
  now_ms :: int
  type_error_message :: string
  gemini_reply :: ai_outcome

record inline_data =
  data :: "string option"
  mimeType :: "string option"

text \<open>
  One call \<open>model.generateContent([prompt, imageData])\<close>. The prompt is a fixed text
  but for the timestamp it embeds, so the call is recorded by that timestamp and the
  image part.
\<close>

record gemini_call =
  call_model :: string
  prompt_timestamp :: string
  image_part :: inline_data

text \<open>
  A response: the status, the headers set, the body (\<open>None\<close> after \<open>.end()\<close>,
  \<open>Some j\<close> after \<open>.json(j)\<close>) and the calls made to the generative model on the way.
  Console output is not modelled.
\<close>

record response =
  res_status :: nat
  res_headers :: "(string \<times> string) list"
  res_body :: "json option"
  ai_calls :: "gemini_call list"

text \<open>
  \<open>const { image } = req.body\<close>: destructuring undefined or null throws a TypeError;
  an object yields its property, any other value has no such property.
\<close>

fun body_prop :: "env \<Rightarrow> json option \<Rightarrow> string \<Rightarrow> string + json option" where
  "body_prop e None k = Inl (type_error_message e)"
| "body_prop e (Some JNull) k = Inl (type_error_message e)"
| "body_prop e (Some (JObj kvs)) k = Inr (map_of kvs k)"
| "body_prop e (Some other) k = Inr None"

section \<open>api/analyze-food-simple.js\<close>

definition simple_headers :: "(string \<times> string) list" where
  "simple_headers =
     [(''Access-Control-Allow-Origin'', ''*''),
      (''Access-Control-Allow-Methods'', ''GET, POST, OPTIONS''),
      (''Access-Control-Allow-Headers'', ''Content-Type'')]"

definition mockAnalysis :: "string \<Rightarrow> json" where
  "mockAnalysis ts = JObj
     [(''name'', JStr ''Indian Food Detected''),
      (''category'', JStr ''indian''),
      (''confidence'', JNum 85),
      (''spiceLevel'', JNum 3),
      (''gutImpact'', JStr ''medium''),
      (''fermented'', JBool False),
      (''reaction'', JStr ''caution''),
      (''explanation'', JStr ''This appears to be an Indian dish. The spices and preparation method suggest moderate gut impact. Consider your spice tolerance.''),
      (''alternatives'', JArr [JStr ''Plain rice'', JStr ''Steamed vegetables'', JStr ''Yogurt'']),
      (''tips'', JArr [JStr ''Eat slowly'', JStr ''Drink water'', JStr ''Monitor your response'']),
      (''nutritionalInfo'', JObj
         [(''calories'', JStr ''200-400 per serving''),
          (''fiber'', JStr ''medium''),
          (''probiotics'', JBool False),
          (''inflammatory'', JBool False)]),
      (''recognitionMethod'', JStr ''mock_analysis''),
      (''timestamp'', JStr ts),
      (''note'', JStr ''This is a mock response while Gemini integration is being configured'')]"

definition simple_handler :: "env \<Rightarrow> request \<Rightarrow> response" where
  "simple_handler e req =
     (if req_method req = ''OPTIONS'' then
        \<lparr>res_status = 200, res_headers = simple_headers, res_body = None, ai_calls = []\<rparr>
      else if req_method req \<noteq> ''POST'' then
        \<lparr>res_status = 405, res_headers = simple_headers,
         res_body = Some (JObj [(''error'', JStr ''Method not allowed'')]), ai_calls = []\<rparr>
      else
        (case body_prop e (req_body req) ''image'' of
           Inl msg \<Rightarrow>
             \<lparr>res_status = 500, res_headers = simple_headers,
              res_body = Some (JObj [(''error'', JStr ''Analysis failed''),
                                     (''message'', JStr msg),
                                     (''timestamp'', JStr (now_iso e))]),
              ai_calls = []\<rparr>
         | Inr img \<Rightarrow>
             if \<not> truthy img then
               \<lparr>res_status = 400, res_headers = simple_headers,
                res_body = Some (JObj [(''error'', JStr ''Image required'')]), ai_calls = []\<rparr>
             else
               \<lparr>res_status = 200, res_headers = simple_headers,
                res_body = Some (mockAnalysis (now_iso e)), ai_calls = []\<rparr>))"

section \<open>The Gemini food-analysis handler\<close>

text \<open>
  The serverless function that sends a food image to Google Gemini and returns the gut
  health analysis (\<open>handler\<close>, with the \<open>GoogleGenerativeAI\<close> client).
\<close>

definition gemini_headers :: "(string \<times> string) list" where
  "gemini_headers =
     [(''Access-Control-Allow-Origin'', ''*''),
      (''Access-Control-Allow-Methods'', ''POST, OPTIONS''),
      (''Access-Control-Allow-Headers'', ''Content-Type'')]"

text \<open>
  The image part sent to the model: a data URL is cut at its first comma and its MIME
  type read between the first colon and the first semicolon; anything else is taken as
  base64 JPEG.
\<close>

definition imageData :: "string \<Rightarrow> inline_data" where
  "imageData img =
     (if startsWith img ''data:image/'' then
        \<lparr>data = js_index (js_split CHR '','' img) 1,
         mimeType =
           (case js_index (js_split CHR '';'' img) 0 of
              None \<Rightarrow> None
            | Some h \<Rightarrow> js_index (js_split CHR '':'' h) 1)\<rparr>
      else \<lparr>data = Some img, mimeType = Some ''image/jpeg''\<rparr>)"

text \<open>The object built when \<open>JSON.parse\<close> throws.\<close>

definition fallbackAnalysis :: "string \<Rightarrow> (string \<times> json) list" where
  "fallbackAnalysis ts =
     [(''name'', JStr ''Food Analysis''),
      (''category'', JStr ''unknown''),
      (''confidence'', JNum 75),
      (''spiceLevel'', JNum 2),
      (''gutImpact'', JStr ''medium''),
      (''fermented'', JBool False),
      (''reaction'', JStr ''caution''),
      (''explanation'', JStr ''AI analysis completed but response format needs adjustment. The food appears to be edible but please consult with a nutritionist for personalized advice.''),
      (''alternatives'', JArr [JStr ''Steamed vegetables'', JStr ''Plain rice'', JStr ''Yogurt'']),
      (''tips'', JArr [JStr ''Eat in moderation'', JStr ''Monitor your body's response'', JStr ''Stay hydrated'']),
      (''nutritionalInfo'', JObj
         [(''calories'', JStr ''varies''),
          (''fiber'', JStr ''medium''),
          (''probiotics'', JBool False),
          (''inflammatory'', JBool False)]),
      (''recognitionMethod'', JStr ''gemini_ai_fallback''),
      (''timestamp'', JStr ts),
      (''note'', JStr ''Response parsing issue - using fallback analysis'')]"

text \<open>The outer \<open>catch\<close>: \<open>error.message || 'An unexpected error occurred'\<close>.\<close>

definition catch_response :: "env \<Rightarrow> string option \<Rightarrow> gemini_call list \<Rightarrow> response" where
  "catch_response e msg cs =
     \<lparr>res_status = 500, res_headers = gemini_headers,
      res_body = Some (JObj
        [(''error'', JStr ''Analysis failed''),
         (''message'', JStr (case msg of
                               None \<Rightarrow> ''An unexpected error occurred''
                             | Some m \<Rightarrow> if m = [] then ''An unexpected error occurred'' else m)),
         (''recognitionMethod'', JStr ''error''),
         (''timestamp'', JStr (now_iso e))]),
      ai_calls = cs\<rparr>"

text \<open>
  The three metadata assignments and the reply. The file is an ES module, so its code is
  strict: assigning a property to null or to a primitive throws a TypeError, which the
  outer \<open>catch\<close> turns into a 500. On an array the assignments succeed, and the JSON
  sent is the array alone.
\<close>

definition add_metadata :: "env \<Rightarrow> (string \<times> json) list \<Rightarrow> (string \<times> json) list" where
  "add_metadata e kvs =
     set_prop ''processingTime'' (JNum (now_ms e))
       (set_prop ''model'' (JStr ''gemini-2.0-flash-exp'')
          (set_prop ''apiVersion'' (JStr ''1.0'') kvs))"

fun respond_analysis :: "env \<Rightarrow> gemini_call list \<Rightarrow> json \<Rightarrow> response" where
  "respond_analysis e cs (JObj kvs) =
     \<lparr>res_status = 200, res_headers = gemini_headers,
      res_body = Some (JObj (add_metadata e kvs)), ai_calls = cs\<rparr>"
| "respond_analysis e cs (JArr xs) =
     \<lparr>res_status = 200, res_headers = gemini_headers,
      res_body = Some (JArr xs), ai_calls = cs\<rparr>"
| "respond_analysis e cs other = catch_response e (Some (type_error_message e)) cs"

definition analyze_image :: "env \<Rightarrow> string \<Rightarrow> response" where
  "analyze_image e img =
     (let call = \<lparr>call_model = ''gemini-2.0-flash-exp'', prompt_timestamp = prompt_iso e,
                  image_part = imageData img\<rparr>
      in case gemini_reply e of
           Rejected msg \<Rightarrow> catch_response e msg [call]
         | Unparsable \<Rightarrow> respond_analysis e [call] (JObj (fallbackAnalysis (now_iso e)))
         | Parsed j \<Rightarrow> respond_analysis e [call] j)"

definition gemini_handler :: "env \<Rightarrow> request \<Rightarrow> response" where
  "gemini_handler e req =
     (if req_method req = ''OPTIONS'' then
        \<lparr>res_status = 200, res_headers = gemini_headers, res_body = None, ai_calls = []\<rparr>
      else if req_method req \<noteq> ''POST'' then
        \<lparr>res_status = 405, res_headers = gemini_headers,
         res_body = Some (JObj [(''error'', JStr ''Method not allowed''),
                                (''message'', JStr ''Only POST requests are supported'')]),
         ai_calls = []\<rparr>
      else if \<not> env_truthy (GEMINI_API_KEY e) then
        \<lparr>res_status = 500, res_headers = gemini_headers,
         res_body = Some (JObj [(''error'', JStr ''Configuration error''),
                                (''message'', JStr ''API key not configured'')]),
         ai_calls = []\<rparr>
      else
        (case body_prop e (req_body req) ''image'' of
           Inl msg \<Rightarrow> catch_response e (Some msg) []
         | Inr img \<Rightarrow>
             if \<not> truthy img then
               \<lparr>res_status = 400, res_headers = gemini_headers,
                res_body = Some (JObj [(''error'', JStr ''Bad request''),
                                       (''message'', JStr ''Image data is required'')]),
                ai_calls = []\<rparr>
             else
               (case img of
                  Some (JStr s) \<Rightarrow> analyze_image e s
                | _ \<Rightarrow> catch_response e (Some (type_error_message e)) [])))"

section \<open>api/health.js\<close>

definition health_headers :: "(string \<times> string) list" where
  "health_headers =
     [(''Access-Control-Allow-Origin'', ''*''),
      (''Access-Control-Allow-Methods'', ''GET, POST, PUT, DELETE, OPTIONS''),
      (''Access-Control-Allow-Headers'', ''Content-Type, Authorization, X-Requested-With''),
      (''Access-Control-Max-Age'', ''86400'')]"

text \<open>The message starts with an emoji (U+1F9A0), written here as its four UTF-8 bytes.\<close>

definition health_message :: string where
  "health_message =
     [CHR 0xF0, CHR 0x9F, CHR 0xA6, CHR 0xA0] @ '' GutSense Backend API is running!''"

definition health_handler :: "env \<Rightarrow> request \<Rightarrow> response" where
  "health_handler e req =
     (if req_method req = ''OPTIONS'' then
        \<lparr>res_status = 200, res_headers = health_headers, res_body = None, ai_calls = []\<rparr>
      else
        \<lparr>res_status = 200, res_headers = health_headers,
         res_body = Some (JObj
           [(''status'', JStr ''healthy''),
            (''message'', JStr health_message),
            (''version'', JStr ''1.0.0''),
            (''timestamp'', JStr (now_iso e)),
            (''cors'', JStr ''enabled''),
            (''gemini'', JStr (if env_truthy (GEMINI_API_KEY e)
                               then ''configured'' else ''not_configured''))]),
         ai_calls = []\<rparr>)"

section \<open>The compatibility rule engine\<close>

text \<open>
  The engine itself (\<open>app/food_engine.py\<close> in the project layout) is not among the
  source files; the README and the project-structure document only quote three of its
  rules as pseudocode. The definitions of this section follow the specification.
\<close>

datatype reaction = Suitable | Caution | Avoid

datatype engine_error = InvalidCategory | InvalidProfile

record gut_profile =
  gut_type :: string
  sensitivities :: "string set"
  spice_tolerance :: int
  additional_notes :: string

text \<open>
  Modelled from the spec: the registry of the engine, which the source files do not
  contain. The specification lists the category vocabulary only in part (fried, spicy,
  dairy, acidic, high_fiber, fermented, gentle, ...), does not say which categories are of
  the "processed" type, and gives neither the explanation texts nor the confidence
  constants of the rules. They are a parameter of the engine.
\<close>

record registry =
  categories :: "string set"
  processed :: "string set"
  rule_explanation :: "nat \<Rightarrow> string"
  rule_confidence :: "nat \<Rightarrow> nat"

text \<open>
  Modelled from the spec: the enumeration of gut types (balanced, high_inflammation,
  low_diversity); the spice tolerance is an ordinal from 1 to 3.
\<close>

definition gut_types :: "string set" where
  "gut_types = {''balanced'', ''high_inflammation'', ''low_diversity''}"

record classification =
  reaction :: reaction
  explanation :: string
  confidenceScore :: nat

record rule =
  rule_no :: nat
  rule_applies :: "string set \<Rightarrow> gut_profile \<Rightarrow> bool"
  rule_reaction :: reaction

text \<open>
  Modelled from the spec: the ordered rule list of the engine's \<open>classify\<close>, rules 1
  to 5 of the specification in their listed order.
\<close>

definition rules :: "rule list" where
  "rules =
     [\<lparr>rule_no = 1,
       rule_applies = (\<lambda>cats p. ''lactose'' \<in> sensitivities p \<and> ''dairy'' \<in> cats),
       rule_reaction = Avoid\<rparr>,
      \<lparr>rule_no = 2,
       rule_applies = (\<lambda>cats p. gut_type p = ''high_inflammation'' \<and> ''fried'' \<in> cats),
       rule_reaction = Avoid\<rparr>,
      \<lparr>rule_no = 3,
       rule_applies = (\<lambda>cats p. spice_tolerance p = 1 \<and> ''spicy'' \<in> cats),
       rule_reaction = Avoid\<rparr>,
      \<lparr>rule_no = 4,
       rule_applies = (\<lambda>cats p. ''fermented'' \<in> cats \<or> ''high_fiber'' \<in> cats),
       rule_reaction = Suitable\<rparr>,
      \<lparr>rule_no = 5,
       rule_applies = (\<lambda>cats p. ''acidic'' \<in> cats \<and> ''acidity'' \<in> sensitivities p),
       rule_reaction = Caution\<rparr>]"

text \<open>
  Modelled from the spec: "the first matching rule wins", and rule 6, the default, when
  none of the list matches: caution if a category of the "processed" type is present,
  else suitable. The result is the number of the rule that fired and its verdict.
\<close>

fun first_match :: "rule list \<Rightarrow> string set \<Rightarrow> gut_profile \<Rightarrow> rule option" where
  "first_match [] cats p = None"
| "first_match (r # rs) cats p =
     (if rule_applies r cats p then Some r else first_match rs cats p)"

definition fired_rule :: "registry \<Rightarrow> string set \<Rightarrow> gut_profile \<Rightarrow> nat \<times> reaction" where
  "fired_rule reg cats p =
     (case first_match rules cats p of
        Some r \<Rightarrow> (rule_no r, rule_reaction r)
      | None \<Rightarrow> (6, if cats \<inter> processed reg \<noteq> {} then Caution else Suitable))"

text \<open>
  Modelled from the spec: the failures of \<open>classify\<close>. The specification gives both
  failure conditions without an order between them and has validation errors "surfaced
  to caller with field-level detail", so a failure carries every violated condition:
  InvalidCategory when a category lies outside the vocabulary, InvalidProfile when the
  gut type or the spice tolerance lies outside its enumeration.
\<close>

definition validation_errors :: "registry \<Rightarrow> string set \<Rightarrow> gut_profile \<Rightarrow> engine_error list" where
  "validation_errors reg cats p =
     (if cats \<subseteq> categories reg then [] else [InvalidCategory]) @
     (if gut_type p \<in> gut_types \<and> spice_tolerance p \<in> {1, 2, 3} then []
      else [InvalidProfile])"

text \<open>
  Modelled from the spec: \<open>classify(foodCategories, profile)\<close>, returning reaction,
  explanation and confidence score, the last two fixed per rule. It takes no clock and
  no random source, and returns nothing but its result.
\<close>

definition classify ::
  "registry \<Rightarrow> string set \<Rightarrow> gut_profile \<Rightarrow> engine_error list + classification" where
  "classify reg cats p =
     (case validation_errors reg cats p of
        [] \<Rightarrow>
          (case fired_rule reg cats p of
             (n, r) \<Rightarrow>
               Inr \<lparr>reaction = r, explanation = rule_explanation reg n,
                    confidenceScore = rule_confidence reg n\<rparr>)
      | err # errs \<Rightarrow> Inl (err # errs))"

section \<open>Reading a response\<close>

text \<open>The property \<open>k\<close> of the JSON body of a response, if it has one.\<close>

definition body_field :: "string \<Rightarrow> response \<Rightarrow> json option" where
  "body_field k r = (case res_body r of None \<Rightarrow> None | Some j \<Rightarrow> jfield k j)"

fun is_array :: "json option \<Rightarrow> bool" where
  "is_array (Some (JArr xs)) = True"
| "is_array other = False"

text \<open>
  A body of the shape the interface promises: reaction, explanation, an array of
  alternatives, and the confidence under the key \<open>ck\<close>.
\<close>

definition carries_fields :: "string \<Rightarrow> response \<Rightarrow> bool" where
  "carries_fields ck r =
     (body_field ''reaction'' r \<noteq> None \<and> body_field ''explanation'' r \<noteq> None \<and>
      is_array (body_field ''alternatives'' r) \<and> body_field ck r \<noteq> None)"

text \<open>The three fields of a verdict, as a response carries them.\<close>

definition verdict_fields :: "response \<Rightarrow> json option \<times> json option \<times> json option" where
  "verdict_fields r =
     (body_field ''reaction'' r, body_field ''explanation'' r, body_field ''confidence'' r)"

text \<open>A confidence that is an integer from 0 to 100.\<close>

fun confidence_in_range :: "json option \<Rightarrow> bool" where
  "confidence_in_range (Some (JNum n)) = (0 \<le> n \<and> n \<le> 100)"
| "confidence_in_range other = False"

text \<open>A reaction of the vocabulary; excellent counts only where \<open>ai\<close> says so.\<close>

fun reaction_in_vocabulary :: "bool \<Rightarrow> json option \<Rightarrow> bool" where
  "reaction_in_vocabulary ai (Some (JStr s)) =
     (s = ''suitable'' \<or> s = ''caution'' \<or> s = ''avoid'' \<or> (ai \<and> s = ''excellent''))"
| "reaction_in_vocabulary ai other = False"

section \<open>Sample inputs\<close>

definition sample_env :: env where
  "sample_env =
     \<lparr>GEMINI_API_KEY = Some ''key'', prompt_iso = ''2024-01-15T10:30:00.000Z'',
      now_iso = ''2024-01-15T10:30:02.000Z'', now_ms = 1705314602000,
      type_error_message = ''TypeError'', gemini_reply = Unparsable\<rparr>"

definition env_with_reply :: "ai_outcome \<Rightarrow> env" where
  "env_with_reply r = sample_env\<lparr>gemini_reply := r\<rparr>"

definition post_image :: request where
  "post_image =
     \<lparr>req_method = ''POST'',
      req_body = Some (JObj [(''image'', JStr ''data:image/jpeg;base64,AAAA'')])\<rparr>"

definition post_food_name :: request where
  "post_food_name =
     \<lparr>req_method = ''POST'', req_body = Some (JObj [(''food_name'', JStr ''idli'')])\<rparr>"

definition sample_registry :: registry where
  "sample_registry =
     \<lparr>categories = {''fried'', ''spicy'', ''dairy'', ''acidic'', ''high_fiber'',
                     ''fermented'', ''gentle'', ''processed''},
      processed = {''processed''},
      rule_explanation = (\<lambda>n. ''rule''),
      rule_confidence = (\<lambda>n. 85)\<rparr>"

definition sample_profile :: gut_profile where
  "sample_profile =
     \<lparr>gut_type = ''high_inflammation'', sensitivities = {''lactose''},
      spice_tolerance = 2, additional_notes = []\<rparr>"

section \<open>Facts about the JavaScript helpers\<close>

text \<open>
  Reading a property after an assignment; the metadata assignments leave every other
  property as it was.
\<close>

lemma map_of_set_prop:
  "map_of (set_prop k v kvs) k' = (if k' = k then Some v else map_of kvs k')"
  by (induction kvs) auto

lemma map_of_add_metadata:
  "k \<noteq> ''apiVersion'' \<Longrightarrow> k \<noteq> ''model'' \<Longrightarrow> k \<noteq> ''processingTime'' \<Longrightarrow>
   map_of (add_metadata e kvs) k = map_of kvs k"
  by (simp add: add_metadata_def map_of_set_prop)

lemma body_prop_eq:
  "body_prop e b k =
     (case b of
        None \<Rightarrow> Inl (type_error_message e)
      | Some JNull \<Rightarrow> Inl (type_error_message e)
      | Some (JObj kvs) \<Rightarrow> Inr (map_of kvs k)
      | Some other \<Rightarrow> Inr None)"
  by (cases "(e, b, k)" rule: body_prop.cases) simp_all

text \<open>
  The fields of the two objects the handlers build themselves.
\<close>

lemma mock_fields:
  "jfield ''reaction'' (mockAnalysis ts) = Some (JStr ''caution'')"
  "jfield ''explanation'' (mockAnalysis ts) = Some (JStr ''This appears to be an Indian dish. The spices and preparation method suggest moderate gut impact. Consider your spice tolerance.'')"
  "jfield ''alternatives'' (mockAnalysis ts) = Some (JArr [JStr ''Plain rice'', JStr ''Steamed vegetables'', JStr ''Yogurt''])"
  "jfield ''confidence'' (mockAnalysis ts) = Some (JNum 85)"
  "jfield ''confidenceScore'' (mockAnalysis ts) = None"
  by (simp_all add: mockAnalysis_def)

lemma fallback_fields:
  "map_of (fallbackAnalysis ts) ''reaction'' = Some (JStr ''caution'')"
  "map_of (fallbackAnalysis ts) ''explanation'' = Some (JStr ''AI analysis completed but response format needs adjustment. The food appears to be edible but please consult with a nutritionist for personalized advice.'')"
  "map_of (fallbackAnalysis ts) ''alternatives'' = Some (JArr [JStr ''Steamed vegetables'', JStr ''Plain rice'', JStr ''Yogurt''])"
  "map_of (fallbackAnalysis ts) ''confidence'' = Some (JNum 75)"
  "map_of (fallbackAnalysis ts) ''confidenceScore'' = None"
  "map_of (fallbackAnalysis ts) ''recognitionMethod'' = Some (JStr ''gemini_ai_fallback'')"
  by (simp_all add: fallbackAnalysis_def)

section \<open>What a successful answer holds\<close>

lemma simple_ok_body:
  "req_method req = ''POST'' \<Longrightarrow> res_status (simple_handler e req) = 200 \<Longrightarrow>
   res_body (simple_handler e req) = Some (mockAnalysis (now_iso e))"
  by (simp add: simple_handler_def split: sum.splits if_splits)

lemma respond_analysis_field:
  "res_status (respond_analysis e cs j) = 200 \<Longrightarrow>
   k \<noteq> ''apiVersion'' \<Longrightarrow> k \<noteq> ''model'' \<Longrightarrow> k \<noteq> ''processingTime'' \<Longrightarrow>
   body_field k (respond_analysis e cs j) = jfield k j"
  by (cases j) (simp_all add: body_field_def catch_response_def map_of_add_metadata)

lemma gemini_ok_unparsable:
  "req_method req = ''POST'' \<Longrightarrow> res_status (gemini_handler e req) = 200 \<Longrightarrow>
   gemini_reply e = Unparsable \<Longrightarrow>
   res_body (gemini_handler e req) = Some (JObj (add_metadata e (fallbackAnalysis (now_iso e))))"
  by (auto simp: gemini_handler_def analyze_image_def catch_response_def Let_def
           split: sum.splits if_splits option.splits json.splits)

lemma gemini_ok_parsed:
  "req_method req = ''POST'' \<Longrightarrow> res_status (gemini_handler e req) = 200 \<Longrightarrow>
   gemini_reply e = Parsed j \<Longrightarrow>
   k \<noteq> ''apiVersion'' \<Longrightarrow> k \<noteq> ''model'' \<Longrightarrow> k \<noteq> ''processingTime'' \<Longrightarrow>
   body_field k (gemini_handler e req) = jfield k j"
  by (auto simp: gemini_handler_def analyze_image_def catch_response_def Let_def
                 respond_analysis_field
           split: sum.splits if_splits option.splits json.splits)

text \<open>
  A call to the generative model is made only by the step that analyses a string image.
\<close>

lemma calls_made:
  "ai_calls (gemini_handler e req) \<noteq> [] \<Longrightarrow> \<exists>s. gemini_handler e req = analyze_image e s"
  by (auto simp: gemini_handler_def catch_response_def
           split: if_splits sum.splits option.splits json.splits)

lemma analyze_image_unparsable:
  "gemini_reply e = Unparsable \<Longrightarrow>
   res_status (analyze_image e s) = 200 \<and>
   res_body (analyze_image e s) = Some (JObj (add_metadata e (fallbackAnalysis (now_iso e))))"
  by (simp add: analyze_image_def)

lemma analyze_image_parsed:
  "gemini_reply e = Parsed j \<Longrightarrow> res_status (analyze_image e s) = 200 \<Longrightarrow>
   k \<noteq> ''apiVersion'' \<Longrightarrow> k \<noteq> ''model'' \<Longrightarrow> k \<noteq> ''processingTime'' \<Longrightarrow>
   body_field k (analyze_image e s) = jfield k j"
  by (simp add: analyze_image_def respond_analysis_field)

text \<open>
  A request without a usable image never gets past the guard.
\<close>

lemma simple_no_image:
  "req_method req = ''POST'' \<Longrightarrow> req_body req = Some (JObj kvs) \<Longrightarrow>
   \<not> truthy (map_of kvs ''image'') \<Longrightarrow>
   simple_handler e req =
     \<lparr>res_status = 400, res_headers = simple_headers,
      res_body = Some (JObj [(''error'', JStr ''Image required'')]), ai_calls = []\<rparr>"
  by (simp add: simple_handler_def)

lemma gemini_no_image:
  "req_method req = ''POST'' \<Longrightarrow> req_body req = Some (JObj kvs) \<Longrightarrow>
   \<not> truthy (map_of kvs ''image'') \<Longrightarrow>
   gemini_handler e req =
     (if env_truthy (GEMINI_API_KEY e) then
        \<lparr>res_status = 400, res_headers = gemini_headers,
         res_body = Some (JObj [(''error'', JStr ''Bad request''),
                                (''message'', JStr ''Image data is required'')]),
         ai_calls = []\<rparr>
      else
        \<lparr>res_status = 500, res_headers = gemini_headers,
         res_body = Some (JObj [(''error'', JStr ''Configuration error''),
                                (''message'', JStr ''API key not configured'')]),
         ai_calls = []\<rparr>)"
  by (simp add: gemini_handler_def)

text \<open>
  The verdict fields of each handler, written without the clock.
\<close>

lemma simple_verdict_fields:
  "verdict_fields (simple_handler e req) =
     (if req_method req = ''POST'' \<and>
         truthy (case req_body req of Some (JObj kvs) \<Rightarrow> map_of kvs ''image'' | _ \<Rightarrow> None)
      then (Some (JStr ''caution''),
            Some (JStr ''This appears to be an Indian dish. The spices and preparation method suggest moderate gut impact. Consider your spice tolerance.''),
            Some (JNum 85))
      else (None, None, None))"
  by (simp add: simple_handler_def verdict_fields_def body_field_def mockAnalysis_def
                body_prop_eq
           split: option.splits json.splits)

lemma analyze_image_verdict:
  "verdict_fields (analyze_image e s) =
     (case gemini_reply e of
        Rejected m \<Rightarrow> (None, None, None)
      | Unparsable \<Rightarrow>
          (Some (JStr ''caution''),
           Some (JStr ''AI analysis completed but response format needs adjustment. The food appears to be edible but please consult with a nutritionist for personalized advice.''),
           Some (JNum 75))
      | Parsed (JObj kvs) \<Rightarrow>
          (map_of kvs ''reaction'', map_of kvs ''explanation'', map_of kvs ''confidence'')
      | Parsed other \<Rightarrow> (None, None, None))"
  by (simp add: analyze_image_def verdict_fields_def body_field_def catch_response_def
                map_of_add_metadata fallback_fields
           split: ai_outcome.splits json.splits)

lemma gemini_verdict_fields:
  "verdict_fields (gemini_handler e req) =
     (if req_method req = ''POST'' \<and> env_truthy (GEMINI_API_KEY e) then
        (case req_body req of
           Some (JObj kvs) \<Rightarrow>
             (case map_of kvs ''image'' of
                Some (JStr s) \<Rightarrow>
                  if s = [] then (None, None, None) else verdict_fields (analyze_image e s)
              | _ \<Rightarrow> (None, None, None))
         | _ \<Rightarrow> (None, None, None))
      else (None, None, None))"
  by (simp add: gemini_handler_def body_prop_eq split: option.splits json.splits)
     (simp add: verdict_fields_def body_field_def catch_response_def)

text \<open>
  The sample runs: a POST with an image, answered by the mock, by the parse fallback
  and from a parsed reply of the model.
\<close>

lemma sample_simple_run:
  "req_method post_image = ''POST'' \<and> res_status (simple_handler sample_env post_image) = 200"
  by (simp add: simple_handler_def post_image_def)

lemma sample_fallback_run:
  "req_method post_image = ''POST'' \<and> res_status (gemini_handler sample_env post_image) = 200 \<and>
   gemini_reply sample_env = Unparsable"
  by (simp add: gemini_handler_def analyze_image_def post_image_def sample_env_def)

lemma sample_unparsable_run:
  "ai_calls (gemini_handler sample_env post_image) \<noteq> [] \<and> gemini_reply sample_env = Unparsable"
  by (simp add: gemini_handler_def analyze_image_def post_image_def sample_env_def)

lemma sample_parsed_run:
  "ai_calls (gemini_handler (env_with_reply (Parsed (JObj kvs))) post_image) \<noteq> [] \<and>
   gemini_reply (env_with_reply (Parsed (JObj kvs))) = Parsed (JObj kvs) \<and>
   req_method post_image = ''POST'' \<and>
   res_status (gemini_handler (env_with_reply (Parsed (JObj kvs))) post_image) = 200"
  by (simp add: gemini_handler_def analyze_image_def post_image_def sample_env_def
                env_with_reply_def)

section \<open>The rule engine: priority, failures, determinism\<close>

text \<open>
  The rule returned by \<open>first_match\<close> applies, and no rule listed before it does.
\<close>

lemma first_match_is_first:
  "first_match rs cats p = Some r \<Longrightarrow>
   \<exists>pre post. rs = pre @ r # post \<and> (\<forall>q\<in>set pre. \<not> rule_applies q cats p) \<and> rule_applies r cats p"
proof (induction rs)
  case Nil
  then show ?case by simp
next
  case (Cons a rs)
  show ?case
  proof (cases "rule_applies a cats p")
    case True
    with Cons.prems have "a = r" by simp
    with True have "a # rs = [] @ r # rs \<and> (\<forall>q\<in>set []. \<not> rule_applies q cats p) \<and> rule_applies r cats p"
      by simp
    then show ?thesis by blast
  next
    case False
    with Cons.prems have "first_match rs cats p = Some r" by simp
    from Cons.IH [OF this] obtain pre post where
      "rs = pre @ r # post" "\<forall>q\<in>set pre. \<not> rule_applies q cats p" "rule_applies r cats p"
      by blast
    with False have "a # rs = (a # pre) @ r # post \<and> (\<forall>q\<in>set (a # pre). \<not> rule_applies q cats p) \<and> rule_applies r cats p"
      by simp
    then show ?thesis by blast
  qed
qed

text \<open>
  C1. For every profile with the sensitivity lactose and the gut type
  high_inflammation, and every category set holding both dairy and fried, the rule that
  fires is rule 1 (lactose with dairy) with the verdict avoid, although rule 2
  (high_inflammation with fried) applies as well; on valid input \<open>classify\<close>
  returns avoid with the explanation and confidence of rule 1. In general the rule
  that fires is the first of the list that applies.
\<close>

theorem rule_priority:
  "(''lactose'' \<in> sensitivities p \<and> gut_type p = ''high_inflammation'' \<and>
    ''dairy'' \<in> cats \<and> ''fried'' \<in> cats \<longrightarrow>
      fired_rule reg cats p = (1, Avoid) \<and>
      rule_no (rules ! 1) = 2 \<and> rule_applies (rules ! 1) cats p \<and>
      (cats \<subseteq> categories reg \<and> spice_tolerance p \<in> {1, 2, 3} \<longrightarrow>
         classify reg cats p =
           Inr \<lparr>reaction = Avoid, explanation = rule_explanation reg 1,
                confidenceScore = rule_confidence reg 1\<rparr>)) \<and>
   (first_match rules cats p = Some r \<longrightarrow>
      (\<exists>pre post. rules = pre @ r # post \<and>
         (\<forall>q\<in>set pre. \<not> rule_applies q cats p) \<and> rule_applies r cats p))"
proof (intro conjI impI)
  assume h: "''lactose'' \<in> sensitivities p \<and> gut_type p = ''high_inflammation'' \<and>
    ''dairy'' \<in> cats \<and> ''fried'' \<in> cats"
  then show f: "fired_rule reg cats p = (1, Avoid)"
    by (simp add: fired_rule_def rules_def)
  show "rule_no (rules ! 1) = 2" by (simp add: rules_def)
  from h show "rule_applies (rules ! 1) cats p" by (simp add: rules_def)
  assume "cats \<subseteq> categories reg \<and> spice_tolerance p \<in> {1, 2, 3}"
  with h have "validation_errors reg cats p = []"
    by (simp add: validation_errors_def gut_types_def)
  with f show "classify reg cats p =
           Inr \<lparr>reaction = Avoid, explanation = rule_explanation reg 1,
                confidenceScore = rule_confidence reg 1\<rparr>"
    by (simp add: classify_def)
next
  assume "first_match rules cats p = Some r"
  then show "\<exists>pre post. rules = pre @ r # post \<and>
         (\<forall>q\<in>set pre. \<not> rule_applies q cats p) \<and> rule_applies r cats p"
    by (rule first_match_is_first)
qed

text \<open>
  The profile lactose and high_inflammation with the categories dairy and fried.
\<close>

theorem rule_priority_witness:
  "fired_rule sample_registry {''dairy'', ''fried''} sample_profile = (1, Avoid) \<and>
   rule_applies (rules ! 1) {''dairy'', ''fried''} sample_profile \<and>
   classify sample_registry {''dairy'', ''fried''} sample_profile =
     Inr \<lparr>reaction = Avoid, explanation = ''rule'', confidenceScore = 85\<rparr>"
  using rule_priority [of sample_profile "{''dairy'', ''fried''}" sample_registry]
  by (simp add: sample_profile_def sample_registry_def)

text \<open>
  C2. \<open>classify\<close> fails with InvalidCategory whenever a category lies outside the
  vocabulary, fails with InvalidProfile whenever the gut type or the spice tolerance
  lies outside its enumeration, and returns a classification for every valid pair of
  categories and profile. Its result is all it produces.
\<close>

theorem classify_failures:
  "(\<not> cats \<subseteq> categories reg \<longrightarrow>
      (\<exists>errs. classify reg cats p = Inl errs \<and> InvalidCategory \<in> set errs)) \<and>
   (gut_type p \<notin> gut_types \<or> spice_tolerance p \<notin> {1, 2, 3} \<longrightarrow>
      (\<exists>errs. classify reg cats p = Inl errs \<and> InvalidProfile \<in> set errs)) \<and>
   (cats \<subseteq> categories reg \<and> gut_type p \<in> gut_types \<and> spice_tolerance p \<in> {1, 2, 3} \<longrightarrow>
      (\<exists>v. classify reg cats p = Inr v))"
  by (auto simp: classify_def validation_errors_def split: prod.splits)

text \<open>
  An unknown category, a spice tolerance of 7, and a valid pair.
\<close>

theorem classify_failures_witness:
  "(\<exists>errs. classify sample_registry {''pizza''} sample_profile = Inl errs \<and>
            InvalidCategory \<in> set errs) \<and>
   (\<exists>errs. classify sample_registry {''dairy''} (sample_profile\<lparr>spice_tolerance := 7\<rparr>) = Inl errs \<and>
            InvalidProfile \<in> set errs) \<and>
   (\<exists>v. classify sample_registry {''dairy''} sample_profile = Inr v)"
  using classify_failures [of "{''pizza''}" sample_registry sample_profile]
        classify_failures [of "{''dairy''}" sample_registry "sample_profile\<lparr>spice_tolerance := 7\<rparr>"]
        classify_failures [of "{''dairy''}" sample_registry sample_profile]
  by (simp add: sample_profile_def sample_registry_def gut_types_def)

text \<open>
  C5. The verdict is deterministic. The reaction, explanation and confidence of the
  mock handler's answer do not depend on the environment (clock included); those of the
  Gemini handler depend on the environment only through the model's reply and whether
  the key is configured, not through the clock; \<open>classify\<close> gives equal results on
  equal inputs, and its explanation and confidence are the constants of the rule that
  fired.
\<close>

theorem verdict_deterministic:
  "verdict_fields (simple_handler e1 req) = verdict_fields (simple_handler e2 req) \<and>
   (env_truthy (GEMINI_API_KEY e1) = env_truthy (GEMINI_API_KEY e2) \<and>
    gemini_reply e1 = gemini_reply e2 \<longrightarrow>
      verdict_fields (gemini_handler e1 req) = verdict_fields (gemini_handler e2 req)) \<and>
   (cats1 = cats2 \<and> p1 = p2 \<longrightarrow> classify reg cats1 p1 = classify reg cats2 p2) \<and>
   (classify reg cats p = Inr v \<longrightarrow>
      reaction v = snd (fired_rule reg cats p) \<and>
      explanation v = rule_explanation reg (fst (fired_rule reg cats p)) \<and>
      confidenceScore v = rule_confidence reg (fst (fired_rule reg cats p)))"
proof (intro conjI impI)
  show "verdict_fields (simple_handler e1 req) = verdict_fields (simple_handler e2 req)"
    by (simp only: simple_verdict_fields)
next
  assume "env_truthy (GEMINI_API_KEY e1) = env_truthy (GEMINI_API_KEY e2) \<and>
    gemini_reply e1 = gemini_reply e2"
  then show "verdict_fields (gemini_handler e1 req) = verdict_fields (gemini_handler e2 req)"
    by (simp add: gemini_verdict_fields analyze_image_verdict
             split: option.splits json.splits)
next
  assume "cats1 = cats2 \<and> p1 = p2"
  then show "classify reg cats1 p1 = classify reg cats2 p2" by simp
next
  assume c: "classify reg cats p = Inr v"
  then have v: "v = \<lparr>reaction = snd (fired_rule reg cats p),
      explanation = rule_explanation reg (fst (fired_rule reg cats p)),
      confidenceScore = rule_confidence reg (fst (fired_rule reg cats p))\<rparr>"
    by (auto simp: classify_def split: list.splits prod.splits)
  show "reaction v = snd (fired_rule reg cats p)" by (simp add: v)
  show "explanation v = rule_explanation reg (fst (fired_rule reg cats p))" by (simp add: v)
  show "confidenceScore v = rule_confidence reg (fst (fired_rule reg cats p))" by (simp add: v)
qed

text \<open>
  Two runs at different times, and the confidence of rule 1.
\<close>

theorem verdict_deterministic_witness:
  "verdict_fields (gemini_handler sample_env post_image) =
     verdict_fields (gemini_handler (sample_env\<lparr>now_iso := ''2030-01-01T00:00:00.000Z'', now_ms := 0\<rparr>) post_image) \<and>
   confidenceScore \<lparr>reaction = Avoid, explanation = ''rule'', confidenceScore = 85\<rparr> =
     rule_confidence sample_registry (fst (fired_rule sample_registry {''dairy''} sample_profile))"
proof -
  let ?e = "sample_env\<lparr>now_iso := ''2030-01-01T00:00:00.000Z'', now_ms := 0\<rparr>"
  have h: "env_truthy (GEMINI_API_KEY sample_env) = env_truthy (GEMINI_API_KEY ?e) \<and>
    gemini_reply sample_env = gemini_reply ?e" by simp
  have c: "classify sample_registry {''dairy''} sample_profile =
      Inr \<lparr>reaction = Avoid, explanation = ''rule'', confidenceScore = 85\<rparr>"
    by (simp add: classify_def validation_errors_def fired_rule_def rules_def
                  sample_registry_def sample_profile_def gut_types_def)
  from h verdict_deterministic [of sample_env post_image ?e]
  have 1: "verdict_fields (gemini_handler sample_env post_image) =
     verdict_fields (gemini_handler ?e post_image)" by blast
  from c verdict_deterministic [where reg = sample_registry and cats = "{''dairy''}"
      and p = sample_profile and v = "\<lparr>reaction = Avoid, explanation = ''rule'', confidenceScore = 85\<rparr>"]
  have "confidenceScore \<lparr>reaction = Avoid, explanation = ''rule'', confidenceScore = 85\<rparr> =
     rule_confidence sample_registry (fst (fired_rule sample_registry {''dairy''} sample_profile))"
    by blast
  with 1 show ?thesis by blast
qed

section \<open>The shape of a successful answer\<close>

text \<open>
  C3, as the handlers have it. A successful POST answered from an object the handler
  builds itself (the mock, or the fallback after an unparsable reply) carries reaction,
  explanation, an array of alternatives and the confidence under the key
  \<open>confidence\<close>; there is no key \<open>confidenceScore\<close>. When the reply of the model
  parses, each of these fields is what the reply holds under that key, present or not.
\<close>

theorem analysis_body_fields:
  "(req_method req = ''POST'' \<and> res_status (simple_handler e req) = 200 \<longrightarrow>
      carries_fields ''confidence'' (simple_handler e req) \<and>
      body_field ''confidenceScore'' (simple_handler e req) = None) \<and>
   (req_method req = ''POST'' \<and> res_status (gemini_handler e req) = 200 \<and>
    gemini_reply e = Unparsable \<longrightarrow>
      carries_fields ''confidence'' (gemini_handler e req) \<and>
      body_field ''confidenceScore'' (gemini_handler e req) = None) \<and>
   (req_method req = ''POST'' \<and> res_status (gemini_handler e req) = 200 \<and>
    gemini_reply e = Parsed j \<longrightarrow>
      body_field ''reaction'' (gemini_handler e req) = jfield ''reaction'' j \<and>
      body_field ''explanation'' (gemini_handler e req) = jfield ''explanation'' j \<and>
      body_field ''alternatives'' (gemini_handler e req) = jfield ''alternatives'' j \<and>
      body_field ''confidence'' (gemini_handler e req) = jfield ''confidence'' j \<and>
      body_field ''confidenceScore'' (gemini_handler e req) = jfield ''confidenceScore'' j)"
proof (intro conjI impI)
  assume "req_method req = ''POST'' \<and> res_status (simple_handler e req) = 200"
  then have b: "res_body (simple_handler e req) = Some (mockAnalysis (now_iso e))"
    by (simp add: simple_ok_body)
  show "carries_fields ''confidence'' (simple_handler e req)"
    by (simp add: carries_fields_def body_field_def b mock_fields)
  show "body_field ''confidenceScore'' (simple_handler e req) = None"
    by (simp add: body_field_def b mock_fields)
next
  assume "req_method req = ''POST'' \<and> res_status (gemini_handler e req) = 200 \<and>
    gemini_reply e = Unparsable"
  then have b: "res_body (gemini_handler e req) =
      Some (JObj (add_metadata e (fallbackAnalysis (now_iso e))))"
    by (simp add: gemini_ok_unparsable)
  show "carries_fields ''confidence'' (gemini_handler e req)"
    by (simp add: carries_fields_def body_field_def b map_of_add_metadata fallback_fields)
  show "body_field ''confidenceScore'' (gemini_handler e req) = None"
    by (simp add: body_field_def b map_of_add_metadata fallback_fields)
next
  assume h: "req_method req = ''POST'' \<and> res_status (gemini_handler e req) = 200 \<and>
    gemini_reply e = Parsed j"
  then show "body_field ''reaction'' (gemini_handler e req) = jfield ''reaction'' j"
    by (simp add: gemini_ok_parsed)
  from h show "body_field ''explanation'' (gemini_handler e req) = jfield ''explanation'' j"
    by (simp add: gemini_ok_parsed)
  from h show "body_field ''alternatives'' (gemini_handler e req) = jfield ''alternatives'' j"
    by (simp add: gemini_ok_parsed)
  from h show "body_field ''confidence'' (gemini_handler e req) = jfield ''confidence'' j"
    by (simp add: gemini_ok_parsed)
  from h show "body_field ''confidenceScore'' (gemini_handler e req) = jfield ''confidenceScore'' j"
    by (simp add: gemini_ok_parsed)
qed

text \<open>
  The mock, the fallback, and a parsed reply holding a reaction.
\<close>

theorem analysis_body_fields_witness:
  "carries_fields ''confidence'' (simple_handler sample_env post_image) \<and>
   carries_fields ''confidence'' (gemini_handler sample_env post_image) \<and>
   body_field ''reaction''
     (gemini_handler (sample_env\<lparr>gemini_reply := Parsed (JObj [(''reaction'', JStr ''avoid'')])\<rparr>)
        post_image) = Some (JStr ''avoid'')"
proof -
  let ?e = "sample_env\<lparr>gemini_reply := Parsed (JObj [(''reaction'', JStr ''avoid'')])\<rparr>"
  have s: "req_method post_image = ''POST'' \<and> res_status (simple_handler sample_env post_image) = 200"
    by (simp add: simple_handler_def post_image_def)
  have u: "req_method post_image = ''POST'' \<and> res_status (gemini_handler sample_env post_image) = 200 \<and>
      gemini_reply sample_env = Unparsable"
    by (simp add: gemini_handler_def analyze_image_def post_image_def sample_env_def)
  have p: "req_method post_image = ''POST'' \<and> res_status (gemini_handler ?e post_image) = 200 \<and>
      gemini_reply ?e = Parsed (JObj [(''reaction'', JStr ''avoid'')])"
    by (simp add: gemini_handler_def analyze_image_def post_image_def sample_env_def)
  from s analysis_body_fields [of post_image sample_env]
  have 1: "carries_fields ''confidence'' (simple_handler sample_env post_image)" by blast
  from u analysis_body_fields [of post_image sample_env]
  have 2: "carries_fields ''confidence'' (gemini_handler sample_env post_image)" by blast
  from p analysis_body_fields [of post_image ?e "JObj [(''reaction'', JStr ''avoid'')]"]
  have "body_field ''reaction'' (gemini_handler ?e post_image) =
      jfield ''reaction'' (JObj [(''reaction'', JStr ''avoid'')])" by blast
  with 1 2 show ?thesis by simp
qed

text \<open>
  C3 as stated fails: the mock answers 200 without a key \<open>confidenceScore\<close>, and
  the Gemini handler answers 200 with none of the fields when the model replies
  \<open>{}\<close>.
\<close>

theorem confidenceScore_counterexample:
  "req_method post_image = ''POST'' \<and>
   res_status (simple_handler sample_env post_image) = 200 \<and>
   \<not> carries_fields ''confidenceScore'' (simple_handler sample_env post_image) \<and>
   res_status (gemini_handler (sample_env\<lparr>gemini_reply := Parsed (JObj [])\<rparr>) post_image) = 200 \<and>
   \<not> carries_fields ''confidence''
       (gemini_handler (sample_env\<lparr>gemini_reply := Parsed (JObj [])\<rparr>) post_image)"
  by (simp add: simple_handler_def gemini_handler_def analyze_image_def post_image_def
                sample_env_def carries_fields_def body_field_def mockAnalysis_def
                add_metadata_def)

text \<open>
  C7, as the handlers have it. The confidence of the mock is 85 and that of the
  fallback is 75, both integers from 0 to 100; the confidence of an answer built from a
  parsed reply is whatever the reply holds under \<open>confidence\<close>, unchecked.
\<close>

theorem confidence_range:
  "(req_method req = ''POST'' \<and> res_status (simple_handler e req) = 200 \<longrightarrow>
      body_field ''confidence'' (simple_handler e req) = Some (JNum 85) \<and>
      confidence_in_range (body_field ''confidence'' (simple_handler e req))) \<and>
   (req_method req = ''POST'' \<and> res_status (gemini_handler e req) = 200 \<and>
    gemini_reply e = Unparsable \<longrightarrow>
      body_field ''confidence'' (gemini_handler e req) = Some (JNum 75) \<and>
      confidence_in_range (body_field ''confidence'' (gemini_handler e req))) \<and>
   (req_method req = ''POST'' \<and> res_status (gemini_handler e req) = 200 \<and>
    gemini_reply e = Parsed j \<longrightarrow>
      body_field ''confidence'' (gemini_handler e req) = jfield ''confidence'' j)"
proof (intro conjI impI)
  assume "req_method req = ''POST'' \<and> res_status (simple_handler e req) = 200"
  then have "res_body (simple_handler e req) = Some (mockAnalysis (now_iso e))"
    by (simp add: simple_ok_body)
  then show c: "body_field ''confidence'' (simple_handler e req) = Some (JNum 85)"
    by (simp add: body_field_def mock_fields)
  show "confidence_in_range (body_field ''confidence'' (simple_handler e req))"
    by (simp add: c)
next
  assume "req_method req = ''POST'' \<and> res_status (gemini_handler e req) = 200 \<and>
    gemini_reply e = Unparsable"
  then have "res_body (gemini_handler e req) =
      Some (JObj (add_metadata e (fallbackAnalysis (now_iso e))))"
    by (simp add: gemini_ok_unparsable)
  then show c: "body_field ''confidence'' (gemini_handler e req) = Some (JNum 75)"
    by (simp add: body_field_def map_of_add_metadata fallback_fields)
  show "confidence_in_range (body_field ''confidence'' (gemini_handler e req))"
    by (simp add: c)
next
  assume "req_method req = ''POST'' \<and> res_status (gemini_handler e req) = 200 \<and>
    gemini_reply e = Parsed j"
  then show "body_field ''confidence'' (gemini_handler e req) = jfield ''confidence'' j"
    by (simp add: gemini_ok_parsed)
qed

text \<open>
  The mock, the fallback, and a parsed reply with confidence 92.
\<close>

theorem confidence_range_witness:
  "confidence_in_range (body_field ''confidence'' (simple_handler sample_env post_image)) \<and>
   confidence_in_range (body_field ''confidence'' (gemini_handler sample_env post_image)) \<and>
   body_field ''confidence''
     (gemini_handler (env_with_reply (Parsed (JObj [(''confidence'', JNum 92)]))) post_image) =
     Some (JNum 92)"
proof -
  let ?j = "JObj [(''confidence'', JNum 92)]"
  from sample_simple_run confidence_range [of post_image sample_env]
  have 1: "confidence_in_range (body_field ''confidence'' (simple_handler sample_env post_image))"
    by blast
  from sample_fallback_run confidence_range [of post_image sample_env]
  have 2: "confidence_in_range (body_field ''confidence'' (gemini_handler sample_env post_image))"
    by blast
  from sample_parsed_run [of "[(''confidence'', JNum 92)]"]
       confidence_range [of post_image "env_with_reply (Parsed ?j)" ?j]
  have "body_field ''confidence'' (gemini_handler (env_with_reply (Parsed ?j)) post_image) =
      jfield ''confidence'' ?j" by blast
  with 1 2 show ?thesis by simp
qed

text \<open>
  C7 as stated fails: a reply with confidence 150 is answered with 200 and 150.
\<close>

theorem confidence_counterexample:
  "req_method post_image = ''POST'' \<and>
   res_status (gemini_handler (env_with_reply (Parsed (JObj [(''confidence'', JNum 150)])))
     post_image) = 200 \<and>
   body_field ''confidence''
     (gemini_handler (env_with_reply (Parsed (JObj [(''confidence'', JNum 150)]))) post_image) =
     Some (JNum 150) \<and>
   \<not> confidence_in_range (body_field ''confidence''
     (gemini_handler (env_with_reply (Parsed (JObj [(''confidence'', JNum 150)]))) post_image))"
  by (simp add: gemini_handler_def analyze_image_def post_image_def sample_env_def
                env_with_reply_def body_field_def add_metadata_def)

text \<open>
  C8, as the handlers have it. The reaction of the mock and of the fallback is
  caution, within suitable, caution, avoid; the reaction of an answer built from a
  parsed reply is whatever the reply holds under \<open>reaction\<close>, unchecked.
\<close>

theorem reaction_vocabulary:
  "(req_method req = ''POST'' \<and> res_status (simple_handler e req) = 200 \<longrightarrow>
      body_field ''reaction'' (simple_handler e req) = Some (JStr ''caution'') \<and>
      reaction_in_vocabulary False (body_field ''reaction'' (simple_handler e req))) \<and>
   (req_method req = ''POST'' \<and> res_status (gemini_handler e req) = 200 \<and>
    gemini_reply e = Unparsable \<longrightarrow>
      body_field ''reaction'' (gemini_handler e req) = Some (JStr ''caution'') \<and>
      reaction_in_vocabulary False (body_field ''reaction'' (gemini_handler e req))) \<and>
   (req_method req = ''POST'' \<and> res_status (gemini_handler e req) = 200 \<and>
    gemini_reply e = Parsed j \<longrightarrow>
      body_field ''reaction'' (gemini_handler e req) = jfield ''reaction'' j)"
proof (intro conjI impI)
  assume "req_method req = ''POST'' \<and> res_status (simple_handler e req) = 200"
  then have "res_body (simple_handler e req) = Some (mockAnalysis (now_iso e))"
    by (simp add: simple_ok_body)
  then show c: "body_field ''reaction'' (simple_handler e req) = Some (JStr ''caution'')"
    by (simp add: body_field_def mock_fields)
  show "reaction_in_vocabulary False (body_field ''reaction'' (simple_handler e req))"
    by (simp add: c)
next
  assume "req_method req = ''POST'' \<and> res_status (gemini_handler e req) = 200 \<and>
    gemini_reply e = Unparsable"
  then have "res_body (gemini_handler e req) =
      Some (JObj (add_metadata e (fallbackAnalysis (now_iso e))))"
    by (simp add: gemini_ok_unparsable)
  then show c: "body_field ''reaction'' (gemini_handler e req) = Some (JStr ''caution'')"
    by (simp add: body_field_def map_of_add_metadata fallback_fields)
  show "reaction_in_vocabulary False (body_field ''reaction'' (gemini_handler e req))"
    by (simp add: c)
next
  assume "req_method req = ''POST'' \<and> res_status (gemini_handler e req) = 200 \<and>
    gemini_reply e = Parsed j"
  then show "body_field ''reaction'' (gemini_handler e req) = jfield ''reaction'' j"
    by (simp add: gemini_ok_parsed)
qed

text \<open>
  The mock, the fallback, and a parsed reply with the reaction excellent.
\<close>

theorem reaction_vocabulary_witness:
  "reaction_in_vocabulary False (body_field ''reaction'' (simple_handler sample_env post_image)) \<and>
   reaction_in_vocabulary False (body_field ''reaction'' (gemini_handler sample_env post_image)) \<and>
   body_field ''reaction''
     (gemini_handler (env_with_reply (Parsed (JObj [(''reaction'', JStr ''excellent'')])))
        post_image) = Some (JStr ''excellent'')"
proof -
  let ?j = "JObj [(''reaction'', JStr ''excellent'')]"
  from sample_simple_run reaction_vocabulary [of post_image sample_env]
  have 1: "reaction_in_vocabulary False (body_field ''reaction'' (simple_handler sample_env post_image))"
    by blast
  from sample_fallback_run reaction_vocabulary [of post_image sample_env]
  have 2: "reaction_in_vocabulary False (body_field ''reaction'' (gemini_handler sample_env post_image))"
    by blast
  from sample_parsed_run [of "[(''reaction'', JStr ''excellent'')]"]
       reaction_vocabulary [of post_image "env_with_reply (Parsed ?j)" ?j]
  have "body_field ''reaction'' (gemini_handler (env_with_reply (Parsed ?j)) post_image) =
      jfield ''reaction'' ?j" by blast
  with 1 2 show ?thesis by simp
qed

text \<open>
  C8 as stated fails: a reply with the reaction \<open>toxic\<close> is answered with 200
  and that reaction, which is outside the vocabulary even with excellent allowed.
\<close>

theorem reaction_counterexample:
  "req_method post_image = ''POST'' \<and>
   res_status (gemini_handler (env_with_reply (Parsed (JObj [(''reaction'', JStr ''toxic'')])))
     post_image) = 200 \<and>
   body_field ''reaction''
     (gemini_handler (env_with_reply (Parsed (JObj [(''reaction'', JStr ''toxic'')]))) post_image) =
     Some (JStr ''toxic'') \<and>
   \<not> reaction_in_vocabulary True (body_field ''reaction''
     (gemini_handler (env_with_reply (Parsed (JObj [(''reaction'', JStr ''toxic'')]))) post_image))"
  by (simp add: gemini_handler_def analyze_image_def post_image_def sample_env_def
                env_with_reply_def body_field_def add_metadata_def)

section \<open>The fallback and its marker\<close>

text \<open>
  A call to the model that throws is not recovered by the fallback: the outer
  \<open>catch\<close> answers 500, marked \<open>error\<close>.
\<close>

lemma rejected_call:
  "ai_calls (gemini_handler e req) \<noteq> [] \<Longrightarrow> gemini_reply e = Rejected m \<Longrightarrow>
   res_status (gemini_handler e req) = 500 \<and>
   body_field ''recognitionMethod'' (gemini_handler e req) = Some (JStr ''error'')"
proof -
  assume c: "ai_calls (gemini_handler e req) \<noteq> []" and r: "gemini_reply e = Rejected m"
  from c obtain s where "gemini_handler e req = analyze_image e s"
    using calls_made by blast
  with r show ?thesis
    by (simp add: analyze_image_def catch_response_def body_field_def)
qed

text \<open>
  C4, as the handler has it. Whenever the model was called and its reply is
  unparsable, the handler answers 200 with the fallback object, whose recognitionMethod
  is \<open>gemini_ai_fallback\<close> and not \<open>gemini_ai\<close>. An answer built from a parsed
  reply carries the recognitionMethod of that reply, which the handler neither sets nor
  checks.
\<close>

theorem fallback_marker:
  "(ai_calls (gemini_handler e req) \<noteq> [] \<and> gemini_reply e = Unparsable \<longrightarrow>
      res_status (gemini_handler e req) = 200 \<and>
      res_body (gemini_handler e req) =
        Some (JObj (add_metadata e (fallbackAnalysis (now_iso e)))) \<and>
      body_field ''recognitionMethod'' (gemini_handler e req) =
        Some (JStr ''gemini_ai_fallback'') \<and>
      body_field ''recognitionMethod'' (gemini_handler e req) \<noteq> Some (JStr ''gemini_ai'')) \<and>
   (ai_calls (gemini_handler e req) \<noteq> [] \<and> gemini_reply e = Parsed j \<and>
    res_status (gemini_handler e req) = 200 \<longrightarrow>
      body_field ''recognitionMethod'' (gemini_handler e req) = jfield ''recognitionMethod'' j)"
proof (intro conjI impI)
  assume h: "ai_calls (gemini_handler e req) \<noteq> [] \<and> gemini_reply e = Unparsable"
  then obtain s where s: "gemini_handler e req = analyze_image e s"
    using calls_made by blast
  from h s show "res_status (gemini_handler e req) = 200"
    by (simp add: analyze_image_unparsable)
  from h s show b: "res_body (gemini_handler e req) =
        Some (JObj (add_metadata e (fallbackAnalysis (now_iso e))))"
    by (simp add: analyze_image_unparsable)
  then show m: "body_field ''recognitionMethod'' (gemini_handler e req) =
        Some (JStr ''gemini_ai_fallback'')"
    by (simp add: body_field_def map_of_add_metadata fallback_fields)
  then show "body_field ''recognitionMethod'' (gemini_handler e req) \<noteq> Some (JStr ''gemini_ai'')"
    by simp
next
  assume h: "ai_calls (gemini_handler e req) \<noteq> [] \<and> gemini_reply e = Parsed j \<and>
    res_status (gemini_handler e req) = 200"
  then obtain s where s: "gemini_handler e req = analyze_image e s"
    using calls_made by blast
  with h show "body_field ''recognitionMethod'' (gemini_handler e req) = jfield ''recognitionMethod'' j"
    by (simp add: analyze_image_parsed)
qed

text \<open>
  An unparsable reply, and a parsed reply marked \<open>gemini_ai\<close>.
\<close>

theorem fallback_marker_witness:
  "res_status (gemini_handler sample_env post_image) = 200 \<and>
   body_field ''recognitionMethod'' (gemini_handler sample_env post_image) =
     Some (JStr ''gemini_ai_fallback'') \<and>
   body_field ''recognitionMethod''
     (gemini_handler (env_with_reply (Parsed (JObj [(''recognitionMethod'', JStr ''gemini_ai'')])))
        post_image) = Some (JStr ''gemini_ai'')"
proof -
  let ?j = "JObj [(''recognitionMethod'', JStr ''gemini_ai'')]"
  from sample_unparsable_run fallback_marker [of sample_env post_image]
  have 1: "res_status (gemini_handler sample_env post_image) = 200 \<and>
      body_field ''recognitionMethod'' (gemini_handler sample_env post_image) =
        Some (JStr ''gemini_ai_fallback'')" by blast
  from sample_parsed_run [of "[(''recognitionMethod'', JStr ''gemini_ai'')]"]
       fallback_marker [of "env_with_reply (Parsed ?j)" post_image ?j]
  have "body_field ''recognitionMethod'' (gemini_handler (env_with_reply (Parsed ?j)) post_image) =
      jfield ''recognitionMethod'' ?j" by blast
  with 1 show ?thesis by simp
qed

text \<open>
  C4 as stated fails in its last part: an answer built from a parsed reply that marks
  itself \<open>gemini_ai_fallback\<close> carries the same marker as the fallback, with a
  verdict of the model's.
\<close>

theorem marker_counterexample:
  "gemini_reply sample_env = Unparsable \<and>
   res_status (gemini_handler sample_env post_image) = 200 \<and>
   gemini_reply (env_with_reply (Parsed (JObj
       [(''reaction'', JStr ''avoid''), (''recognitionMethod'', JStr ''gemini_ai_fallback'')]))) =
     Parsed (JObj
       [(''reaction'', JStr ''avoid''), (''recognitionMethod'', JStr ''gemini_ai_fallback'')]) \<and>
   res_status (gemini_handler (env_with_reply (Parsed (JObj
       [(''reaction'', JStr ''avoid''), (''recognitionMethod'', JStr ''gemini_ai_fallback'')])))
       post_image) = 200 \<and>
   body_field ''reaction'' (gemini_handler (env_with_reply (Parsed (JObj
       [(''reaction'', JStr ''avoid''), (''recognitionMethod'', JStr ''gemini_ai_fallback'')])))
       post_image) = Some (JStr ''avoid'') \<and>
   body_field ''recognitionMethod'' (gemini_handler (env_with_reply (Parsed (JObj
       [(''reaction'', JStr ''avoid''), (''recognitionMethod'', JStr ''gemini_ai_fallback'')])))
       post_image) =
   body_field ''recognitionMethod'' (gemini_handler sample_env post_image)"
  by (simp add: gemini_handler_def analyze_image_def post_image_def sample_env_def
                env_with_reply_def body_field_def add_metadata_def fallbackAnalysis_def)

section \<open>The image guard\<close>

text \<open>
  C6, as the handlers have it. The image is required: a POST whose body is an object
  without an image (or with a falsy one) is answered 400 by the mock handler and, with
  the key configured, 400 by the Gemini handler (500 without the key), and no call to
  the model is made. The field food_name is never read: adding it to a body changes no
  answer.
\<close>

theorem image_required:
  "(req_method req = ''POST'' \<and> req_body req = Some (JObj kvs) \<and>
    \<not> truthy (map_of kvs ''image'') \<longrightarrow>
      res_status (simple_handler e req) = 400 \<and>
      res_body (simple_handler e req) = Some (JObj [(''error'', JStr ''Image required'')]) \<and>
      res_status (gemini_handler e req) = (if env_truthy (GEMINI_API_KEY e) then 400 else 500) \<and>
      (env_truthy (GEMINI_API_KEY e) \<longrightarrow>
         res_body (gemini_handler e req) =
           Some (JObj [(''error'', JStr ''Bad request''),
                       (''message'', JStr ''Image data is required'')])) \<and>
      ai_calls (gemini_handler e req) = []) \<and>
   simple_handler e (req\<lparr>req_body := Some (JObj ((''food_name'', v) # kvs))\<rparr>) =
     simple_handler e (req\<lparr>req_body := Some (JObj kvs)\<rparr>) \<and>
   gemini_handler e (req\<lparr>req_body := Some (JObj ((''food_name'', v) # kvs))\<rparr>) =
     gemini_handler e (req\<lparr>req_body := Some (JObj kvs)\<rparr>)"
proof (intro conjI impI)
  assume h: "req_method req = ''POST'' \<and> req_body req = Some (JObj kvs) \<and>
    \<not> truthy (map_of kvs ''image'')"
  then have s: "simple_handler e req =
     \<lparr>res_status = 400, res_headers = simple_headers,
      res_body = Some (JObj [(''error'', JStr ''Image required'')]), ai_calls = []\<rparr>"
    by (simp add: simple_no_image)
  show "res_status (simple_handler e req) = 400" by (simp add: s)
  show "res_body (simple_handler e req) = Some (JObj [(''error'', JStr ''Image required'')])"
    by (simp add: s)
  from h show "res_status (gemini_handler e req) = (if env_truthy (GEMINI_API_KEY e) then 400 else 500)"
    by (simp add: gemini_no_image [of req kvs])
  from h show "ai_calls (gemini_handler e req) = []"
    by (simp add: gemini_no_image [of req kvs])
  assume "env_truthy (GEMINI_API_KEY e)"
  with h show "res_body (gemini_handler e req) =
           Some (JObj [(''error'', JStr ''Bad request''),
                       (''message'', JStr ''Image data is required'')])"
    by (simp add: gemini_no_image [of req kvs])
next
  show "simple_handler e (req\<lparr>req_body := Some (JObj ((''food_name'', v) # kvs))\<rparr>) =
     simple_handler e (req\<lparr>req_body := Some (JObj kvs)\<rparr>)"
    by (simp add: simple_handler_def)
  show "gemini_handler e (req\<lparr>req_body := Some (JObj ((''food_name'', v) # kvs))\<rparr>) =
     gemini_handler e (req\<lparr>req_body := Some (JObj kvs)\<rparr>)"
    by (simp add: gemini_handler_def)
qed

text \<open>
  A body holding only food_name.
\<close>

theorem image_required_witness:
  "res_status (simple_handler sample_env post_food_name) = 400 \<and>
   res_status (gemini_handler sample_env post_food_name) = 400 \<and>
   ai_calls (gemini_handler sample_env post_food_name) = []"
proof -
  have h: "req_method post_food_name = ''POST'' \<and>
      req_body post_food_name = Some (JObj [(''food_name'', JStr ''idli'')]) \<and>
      \<not> truthy (map_of [(''food_name'', JStr ''idli'')] ''image'')"
    by (simp add: post_food_name_def)
  have k: "env_truthy (GEMINI_API_KEY sample_env)" by (simp add: sample_env_def)
  from h image_required [of post_food_name "[(''food_name'', JStr ''idli'')]" sample_env]
  have "res_status (simple_handler sample_env post_food_name) = 400 \<and>
      res_status (gemini_handler sample_env post_food_name) =
        (if env_truthy (GEMINI_API_KEY sample_env) then 400 else 500) \<and>
      ai_calls (gemini_handler sample_env post_food_name) = []" by blast
  with k show ?thesis by simp
qed

text \<open>
  C6 as stated fails: no POST whose body supplies food_name and no image is answered
  200 by either handler.
\<close>

theorem food_name_only_counterexample:
  "\<not> (\<exists>e req kvs. req_method req = ''POST'' \<and> req_body req = Some (JObj kvs) \<and>
         map_of kvs ''food_name'' \<noteq> None \<and> map_of kvs ''image'' = None \<and>
         (res_status (simple_handler e req) = 200 \<or> res_status (gemini_handler e req) = 200))"
proof
  assume "\<exists>e req kvs. req_method req = ''POST'' \<and> req_body req = Some (JObj kvs) \<and>
         map_of kvs ''food_name'' \<noteq> None \<and> map_of kvs ''image'' = None \<and>
         (res_status (simple_handler e req) = 200 \<or> res_status (gemini_handler e req) = 200)"
  then obtain e req kvs where h: "req_method req = ''POST''" "req_body req = Some (JObj kvs)"
      "map_of kvs ''image'' = None"
      and s: "res_status (simple_handler e req) = 200 \<or> res_status (gemini_handler e req) = 200"
    by blast
  from h have "res_status (simple_handler e req) = 400"
    by (simp add: simple_no_image [of req kvs])
  moreover from h have "res_status (gemini_handler e req) \<noteq> 200"
    by (simp add: gemini_no_image [of req kvs])
  ultimately show False using s by simp
qed

section \<open>The API key\<close>

text \<open>
  C9, as the handlers have it. When GEMINI_API_KEY is absent or empty, every POST to
  the Gemini handler is answered 500 with the message "API key not configured" and no
  call to the model, and the health handler reports gemini as \<open>not_configured\<close> on
  every request but OPTIONS; when the variable is a non-empty string, the health
  handler reports \<open>configured\<close> on every request but OPTIONS.
\<close>

theorem api_key_guard:
  "((GEMINI_API_KEY e = None \<or> GEMINI_API_KEY e = Some []) \<and> req_method req = ''POST'' \<longrightarrow>
      res_status (gemini_handler e req) = 500 \<and>
      res_body (gemini_handler e req) =
        Some (JObj [(''error'', JStr ''Configuration error''),
                    (''message'', JStr ''API key not configured'')]) \<and>
      ai_calls (gemini_handler e req) = []) \<and>
   ((GEMINI_API_KEY e = None \<or> GEMINI_API_KEY e = Some []) \<and> req_method req \<noteq> ''OPTIONS'' \<longrightarrow>
      res_status (health_handler e req) = 200 \<and>
      body_field ''gemini'' (health_handler e req) = Some (JStr ''not_configured'')) \<and>
   (GEMINI_API_KEY e = Some k \<and> k \<noteq> [] \<and> req_method req \<noteq> ''OPTIONS'' \<longrightarrow>
      res_status (health_handler e req) = 200 \<and>
      body_field ''gemini'' (health_handler e req) = Some (JStr ''configured''))"
  by (cases "GEMINI_API_KEY e") (auto simp: gemini_handler_def health_handler_def body_field_def)

text \<open>
  The variable absent, and the variable set.
\<close>

theorem api_key_guard_witness:
  "res_status (gemini_handler (sample_env\<lparr>GEMINI_API_KEY := None\<rparr>) post_image) = 500 \<and>
   ai_calls (gemini_handler (sample_env\<lparr>GEMINI_API_KEY := None\<rparr>) post_image) = [] \<and>
   body_field ''gemini'' (health_handler (sample_env\<lparr>GEMINI_API_KEY := None\<rparr>) post_image) =
     Some (JStr ''not_configured'') \<and>
   body_field ''gemini'' (health_handler sample_env post_image) = Some (JStr ''configured'')"
proof -
  let ?e = "sample_env\<lparr>GEMINI_API_KEY := None\<rparr>"
  have a: "(GEMINI_API_KEY ?e = None \<or> GEMINI_API_KEY ?e = Some []) \<and>
      req_method post_image = ''POST'' \<and> req_method post_image \<noteq> ''OPTIONS''"
    by (simp add: post_image_def)
  have p: "GEMINI_API_KEY sample_env = Some ''key'' \<and> ''key'' \<noteq> [] \<and>
      req_method post_image \<noteq> ''OPTIONS''"
    by (simp add: post_image_def sample_env_def)
  from a api_key_guard [of ?e post_image]
  have 1: "res_status (gemini_handler ?e post_image) = 500 \<and>
      ai_calls (gemini_handler ?e post_image) = [] \<and>
      body_field ''gemini'' (health_handler ?e post_image) = Some (JStr ''not_configured'')"
    by blast
  from p api_key_guard [of sample_env post_image "''key''"]
  have "body_field ''gemini'' (health_handler sample_env post_image) = Some (JStr ''configured'')"
    by blast
  with 1 show ?thesis by blast
qed

text \<open>
  C9 as stated fails: with the variable present but empty the health handler reports
  \<open>not_configured\<close>, and on an OPTIONS request it reports nothing.
\<close>

theorem empty_key_counterexample:
  "GEMINI_API_KEY (sample_env\<lparr>GEMINI_API_KEY := Some []\<rparr>) \<noteq> None \<and>
   body_field ''gemini''
     (health_handler (sample_env\<lparr>GEMINI_API_KEY := Some []\<rparr>)
        \<lparr>req_method = ''GET'', req_body = None\<rparr>) = Some (JStr ''not_configured'') \<and>
   GEMINI_API_KEY sample_env \<noteq> None \<and>
   body_field ''gemini''
     (health_handler sample_env \<lparr>req_method = ''OPTIONS'', req_body = None\<rparr>) = None"
  by (simp add: health_handler_def body_field_def sample_env_def)

section \<open>Method gating\<close>

text \<open>
  C10. For every request: when the method is OPTIONS, both analyze handlers answer 200
  with an empty body; when it is neither OPTIONS nor POST, they answer 405 with an error
  body, make no call to the generative model, and the answer does not depend on the
  environment at all (so no analysis is built from the clock or from a model reply).
\<close>

theorem method_gating:
  "(req_method req = ''OPTIONS'' \<longrightarrow>
      res_status (simple_handler e req) = 200 \<and> res_body (simple_handler e req) = None \<and>
      res_status (gemini_handler e req) = 200 \<and> res_body (gemini_handler e req) = None) \<and>
   (req_method req \<noteq> ''OPTIONS'' \<and> req_method req \<noteq> ''POST'' \<longrightarrow>
      res_status (simple_handler e req) = 405 \<and>
      res_body (simple_handler e req) = Some (JObj [(''error'', JStr ''Method not allowed'')]) \<and>
      ai_calls (simple_handler e req) = [] \<and>
      simple_handler e req = simple_handler e' req \<and>
      res_status (gemini_handler e req) = 405 \<and>
      res_body (gemini_handler e req) =
        Some (JObj [(''error'', JStr ''Method not allowed''),
                    (''message'', JStr ''Only POST requests are supported'')]) \<and>
      ai_calls (gemini_handler e req) = [] \<and>
      gemini_handler e req = gemini_handler e' req)"
  by (simp add: simple_handler_def gemini_handler_def)

text \<open>The gating at an OPTIONS request and at a GET request.\<close>

theorem method_gating_witness:
  "res_status (simple_handler sample_env \<lparr>req_method = ''OPTIONS'', req_body = None\<rparr>) = 200 \<and>
   res_body (gemini_handler sample_env \<lparr>req_method = ''OPTIONS'', req_body = None\<rparr>) = None \<and>
   res_status (simple_handler sample_env \<lparr>req_method = ''GET'', req_body = None\<rparr>) = 405 \<and>
   res_status (gemini_handler sample_env \<lparr>req_method = ''GET'', req_body = None\<rparr>) = 405 \<and>
   ai_calls (gemini_handler sample_env \<lparr>req_method = ''GET'', req_body = None\<rparr>) = []"
  using method_gating [of "\<lparr>req_method = ''OPTIONS'', req_body = None\<rparr>" sample_env sample_env]
        method_gating [of "\<lparr>req_method = ''GET'', req_body = None\<rparr>" sample_env sample_env]
  by simp

end
